theory Spec2Isabelle
  imports Complex_Main "HOL-Library.DAList"
begin

section \<open>Data\<close>

text \<open>
  The repository holds the runner twice: the script \<^verbatim>\<open>src/main.py\<close> (zoneinfo, requests,
  plain file I/O) and the package \<^verbatim>\<open>src/python/time_trigger_task/__init__.py\<close> (pytz, and
  the \<^verbatim>\<open>task_io\<close> binding for the files and the HTTP call). Both have one function
  \<^verbatim>\<open>process_tasks\<close>. What the two share is modelled once; where they differ the package's
  definition carries the suffix \<open>_pkg\<close>.

  A config file is a JSON object. Its fields are typed as the runner expects them
  (strings, a list of strings for \<^verbatim>\<open>device_keys\<close>, a dict for \<^verbatim>\<open>body\<close>); an absent key is
  \<open>None\<close>. \<open>executed\<close> is \<open>True\<close> exactly when \<^verbatim>\<open>data.get("executed") is True\<close>.
\<close>

datatype json = JNull | JBool bool | JNumber rat | JString string
  | JArray "json list" | JObject "(string \<times> json) list"

text \<open>
  A body dict: the reserved entry \<^verbatim>\<open>device_keys\<close> and the other entries, which the runner
  never reads.
\<close>

record pydict =
  device_keys :: "string list option"
  other_items :: "(string \<times> json) list"

text \<open>
  The record of a task. \<open>'b\<close> is what stands for the body: the dict itself in a file
  (\<open>pydict task\<close>), a reference into the store of dict objects while the runner works on
  the loaded \<^verbatim>\<open>data\<close> (\<open>nat task\<close>).
\<close>

record 'b task =
  executed :: bool
  executed_at :: "string option"
  trigger_time :: "string option"
  timezone :: "string option"
  webhook_url :: "string option"
  method' :: "string option"
  body :: "'b option"

text \<open>
  \<^verbatim>\<open>secret_keys\<close>, the value of \<^verbatim>\<open>json.loads\<close> on the environment variable: a list, a
  dict (each key once, in insertion order), or any other JSON value, for which neither
  strategy runs.
\<close>

datatype secret = SecretList "string list" | SecretDict "(string, string) alist" | SecretOther

text \<open>The HTTP calls of the two runners, and what comes back.\<close>

datatype request =
    Get "string option" pydict nat
  | Post "string option" pydict nat
  | SendRequest string "string option" pydict nat

datatype response = Status int | Fault

text \<open>Exceptions that leave \<^verbatim>\<open>process_tasks\<close> or are told apart by an \<^verbatim>\<open>except\<close>.\<close>

datatype exn = KeyError | ValueError | TypeError | OSError

text \<open>
  A datetime: the wall-clock fields in microseconds, the tzinfo object (\<open>None\<close>: naive)
  and the UTC offset that object gives this datetime. \<open>ZoneInfo k\<close> is the one cached
  object of key \<open>k\<close>; pytz has one object for each offset of a zone.
\<close>

datatype tzinfo = ZoneInfo string | Pytz string int | PytzUTC

record datetime =
  wall :: int
  tzinfo :: "tzinfo option"
  utcoffset :: int

text \<open>
  What the runner prints and does, in order. One constructor for each \<^verbatim>\<open>print\<close> of
  \<^verbatim>\<open>process_tasks\<close>, and \<open>Http\<close>, \<open>Sleep\<close> for the calls to the network and to
  \<^verbatim>\<open>time.sleep\<close>.
\<close>

datatype event =
    NoConfigFiles
  | Checking string
  | ReadFailed
  | SkipExecuted
  | InvalidZone string
  | TimeFormatError
  | ShowTimes datetime datetime
  | ShowDelay real
  | Preparing
  | InjectAppend nat
  | InjectAll
  | ReplaceAlias string
  | Sending nat
  | Http request
  | SendOk int
  | ServerReturned int
  | NetworkError
  | WaitRetry nat
  | Sleep nat
  | Saved
  | SaveFailed
  | GaveUp
  | NotYetDue
  | Expired
  | SummaryChanged
  | SummaryUnchanged

section \<open>Configuration\<close>

definition TOLERANCE_MINUTES :: real where
  "TOLERANCE_MINUTES = 30"

definition TIME_FORMAT :: string where
  "TIME_FORMAT = ''%Y-%m-%d %H:%M:%S''"

definition MAX_RETRIES :: nat where
  "MAX_RETRIES = 3"

definition RETRY_DELAY :: nat where
  "RETRY_DELAY = 2"

section \<open>Injecting the keys\<close>

text \<open>
  \<^verbatim>\<open>list(set(xs))\<close>: each value once. Python does not fix the order in which a set is
  iterated, so the order is a parameter: the values come out by the rank \<open>order\<close> gives
  them, and any order of the distinct values is the result for some \<open>order\<close>.
\<close>

definition list_set :: "(string \<Rightarrow> nat) \<Rightarrow> string list \<Rightarrow> string list" where
  "list_set order xs = sort_key order (remdups xs)"

text \<open>
  The loop \<^verbatim>\<open>for item in original_list\<close> of strategy B, with \<^verbatim>\<open>resolved_list\<close> and the
  output so far as accumulators.
\<close>

fun replace_aliases ::
  "(string, string) alist \<Rightarrow> string list \<Rightarrow> string list \<times> event list \<Rightarrow> string list \<times> event list"
where
  "replace_aliases secret_keys [] (resolved_list, out) = (resolved_list, out)"
| "replace_aliases secret_keys (item # original_list) (resolved_list, out) =
     (case DAList.lookup secret_keys item of
        Some key \<Rightarrow>
          replace_aliases secret_keys original_list
            (resolved_list @ [key], out @ [ReplaceAlias item])
      | None \<Rightarrow>
          replace_aliases secret_keys original_list (resolved_list @ [item], out))"

text \<open>
  Strategies A and B (\<^verbatim>\<open>main.py\<close> lines 113 to 135, the package's lines 89 to 106): from
  the list \<^verbatim>\<open>payload["device_keys"]\<close> holds to the list it holds afterwards, with the
  lines printed. Where the source assigns nothing the list is returned as it is.
\<close>

definition inject_keys :: "(string \<Rightarrow> nat) \<Rightarrow> secret \<Rightarrow> string list \<Rightarrow> string list \<times> event list" where
  "inject_keys order secret_keys keys =
     (case secret_keys of
        SecretList ks \<Rightarrow>
          if ks \<noteq> [] then (list_set order (keys @ ks), [InjectAppend (length ks)])
          else (keys, [])
      | SecretDict m \<Rightarrow>
          if keys = [] \<and> DAList.impl_of m \<noteq> [] then (map snd (DAList.impl_of m), [InjectAll])
          else replace_aliases m keys ([], [])
      | SecretOther \<Rightarrow> (keys, []))"

text \<open>The substitution strategy B applies to one alias.\<close>

definition substitute :: "(string, string) alist \<Rightarrow> string \<Rightarrow> string" where
  "substitute m item = (case DAList.lookup m item of Some key \<Rightarrow> key | None \<Rightarrow> item)"

section \<open>The payload, a copy\<close>

text \<open>
  The dict objects the runner assigns into live in a store, addressed by position, so
  that a reference and a copy are different things. \<^verbatim>\<open>data.get("body", {})\<close> yields the
  reference held by \<^verbatim>\<open>data\<close> (or a new empty dict), \<^verbatim>\<open>copy.deepcopy\<close> allocates a new
  object with the same entries, and \<^verbatim>\<open>payload["device_keys"] = v\<close> updates the object
  \<^verbatim>\<open>payload\<close> refers to. Strings, lists and the values of the other entries are never
  updated in place by the runner and stand as values.
\<close>

type_synonym heap = "pydict list"

definition alloc :: "pydict \<Rightarrow> heap \<Rightarrow> nat \<times> heap" where
  "alloc d h = (length h, h @ [d])"

definition deepcopy :: "nat \<Rightarrow> heap \<Rightarrow> nat \<times> heap" where
  "deepcopy a h = alloc (h ! a) h"

definition setitem_device_keys :: "nat \<Rightarrow> string list \<Rightarrow> heap \<Rightarrow> heap" where
  "setitem_device_keys a v h = h[a := (h ! a)\<lparr>device_keys := Some v\<rparr>]"

text \<open>
  \<^verbatim>\<open>payload["device_keys"]\<close>, read after lines 109 and 110 have made sure the key is
  there.
\<close>

definition getitem_device_keys :: "nat \<Rightarrow> heap \<Rightarrow> string list" where
  "getitem_device_keys a h = (case device_keys (h ! a) of Some v \<Rightarrow> v | None \<Rightarrow> [])"

definition with_body :: "'a task \<Rightarrow> 'b option \<Rightarrow> 'b task" where
  "with_body t b =
     \<lparr>executed = executed t, executed_at = executed_at t, trigger_time = trigger_time t,
      timezone = timezone t, webhook_url = webhook_url t, method' = method' t, body = b\<rparr>"

text \<open>
  \<^verbatim>\<open>json.load\<close> (\<^verbatim>\<open>task_io.read_config\<close>) builds the objects of a file's record, and
  \<^verbatim>\<open>json.dump\<close> (\<^verbatim>\<open>task_io.save_config\<close>) writes out what \<^verbatim>\<open>data\<close> refers to at that
  moment.
\<close>

definition load :: "pydict task \<Rightarrow> heap \<Rightarrow> nat task \<times> heap" where
  "load file h =
     (case body file of
        None \<Rightarrow> (with_body file None, h)
      | Some d \<Rightarrow> (let (a, h') = alloc d h in (with_body file (Some a), h')))"

definition dump :: "nat task \<Rightarrow> heap \<Rightarrow> pydict task" where
  "dump data h = with_body data (map_option (\<lambda>a. h ! a) (body data))"

text \<open>
  \<^verbatim>\<open>main.py\<close> lines 106 to 135 (the package's lines 83 to 106): the reference to the
  payload, the store afterwards and the lines printed.
\<close>

definition build_payload ::
  "(string \<Rightarrow> nat) \<Rightarrow> secret \<Rightarrow> nat task \<Rightarrow> heap \<Rightarrow> nat \<times> heap \<times> event list"
where
  "build_payload order secret_keys data h =
     (let (b, h1) = (case body data of
                       Some a \<Rightarrow> (a, h)
                     | None \<Rightarrow> alloc \<lparr>device_keys = None, other_items = []\<rparr> h);
          (payload, h2) = deepcopy b h1;
          h3 = (if device_keys (h2 ! payload) = None
                then setitem_device_keys payload [] h2 else h2);
          (keys, out) = inject_keys order secret_keys (getitem_device_keys payload h3)
      in (payload, setitem_device_keys payload keys h3, out))"

section \<open>Sending, with retries\<close>

text \<open>\<^verbatim>\<open>str.upper\<close>, on the letters of ASCII.\<close>

definition upper_char :: "char \<Rightarrow> char" where
  "upper_char c =
     (case map_of (zip ''abcdefghijklmnopqrstuvwxyz'' ''ABCDEFGHIJKLMNOPQRSTUVWXYZ'') c of
        Some u \<Rightarrow> u
      | None \<Rightarrow> c)"

definition upper :: "string \<Rightarrow> string" where
  "upper s = map upper_char s"

text \<open>
  The call of one attempt in \<^verbatim>\<open>main.py\<close> (lines 143 to 146), and in the package (lines
  118 to 123), which hands the method to the binding.
\<close>

definition make_request :: "string \<Rightarrow> string option \<Rightarrow> pydict \<Rightarrow> request" where
  "make_request method url payload =
     (if method = ''GET'' then Get url payload 20 else Post url payload 20)"

definition make_request_pkg :: "string \<Rightarrow> string option \<Rightarrow> pydict \<Rightarrow> request" where
  "make_request_pkg method url payload = SendRequest method url payload 20"

text \<open>
  The loop \<^verbatim>\<open>for attempt in range(1, MAX_RETRIES + 1)\<close> over the attempts still to make.
  \<open>http attempt req\<close> is what the network answers to the call of that attempt: a
  response with its status code, or a fault (\<^verbatim>\<open>requests.exceptions.RequestException\<close> in
  \<^verbatim>\<open>main.py\<close>, any exception of the binding in the package). The result is the flag
  \<^verbatim>\<open>success\<close> and what was printed and done.
\<close>

fun send_attempts :: "(nat \<Rightarrow> request \<Rightarrow> response) \<Rightarrow> request \<Rightarrow> nat list \<Rightarrow> bool \<times> event list" where
  "send_attempts http req [] = (False, [])"
| "send_attempts http req (attempt # rest) =
     (case http attempt req of
        Status status_code \<Rightarrow>
          if 200 \<le> status_code \<and> status_code < 300
          then (True, [Sending attempt, Http req, SendOk status_code])
          else (let (success, out) = send_attempts http req rest
                in (success,
                    [Sending attempt, Http req, ServerReturned status_code]
                    @ (if attempt < MAX_RETRIES then [WaitRetry RETRY_DELAY, Sleep RETRY_DELAY] else [])
                    @ out))
      | Fault \<Rightarrow>
          (let (success, out) = send_attempts http req rest
           in (success,
               [Sending attempt, Http req, NetworkError]
               @ (if attempt < MAX_RETRIES then [WaitRetry RETRY_DELAY, Sleep RETRY_DELAY] else [])
               @ out)))"

fun send_attempts_pkg :: "(nat \<Rightarrow> request \<Rightarrow> response) \<Rightarrow> request \<Rightarrow> nat list \<Rightarrow> bool \<times> event list" where
  "send_attempts_pkg http req [] = (False, [])"
| "send_attempts_pkg http req (attempt # rest) =
     (case http attempt req of
        Status status_code \<Rightarrow>
          if 200 \<le> status_code \<and> status_code < 300
          then (True, [Sending attempt, Http req, SendOk status_code])
          else (let (success, out) = send_attempts_pkg http req rest
                in (success,
                    [Sending attempt, Http req, ServerReturned status_code]
                    @ (if attempt < MAX_RETRIES then [Sleep RETRY_DELAY] else [])
                    @ out))
      | Fault \<Rightarrow>
          (let (success, out) = send_attempts_pkg http req rest
           in (success,
               [Sending attempt, Http req, NetworkError]
               @ (if attempt < MAX_RETRIES then [Sleep RETRY_DELAY] else [])
               @ out)))"

definition send_with_retry :: "(nat \<Rightarrow> request \<Rightarrow> response) \<Rightarrow> request \<Rightarrow> bool \<times> event list" where
  "send_with_retry http req = send_attempts http req [1..<MAX_RETRIES + 1]"

definition send_with_retry_pkg :: "(nat \<Rightarrow> request \<Rightarrow> response) \<Rightarrow> request \<Rightarrow> bool \<times> event list" where
  "send_with_retry_pkg http req = send_attempts_pkg http req [1..<MAX_RETRIES + 1]"

text \<open>What a run sent, how long it slept and which attempts it announced.\<close>

definition http_calls :: "event list \<Rightarrow> request list" where
  "http_calls out = List.map_filter (\<lambda>e. case e of Http r \<Rightarrow> Some r | _ \<Rightarrow> None) out"

definition sleeps :: "event list \<Rightarrow> nat list" where
  "sleeps out = List.map_filter (\<lambda>e. case e of Sleep n \<Rightarrow> Some n | _ \<Rightarrow> None) out"

definition attempts :: "event list \<Rightarrow> nat list" where
  "attempts out = List.map_filter (\<lambda>e. case e of Sending n \<Rightarrow> Some n | _ \<Rightarrow> None) out"

text \<open>The success criterion in the words of the specification: a status in [200, 300).\<close>

definition is_2xx :: "response \<Rightarrow> bool" where
  "is_2xx r = (case r of Status c \<Rightarrow> 200 \<le> c \<and> c < 300 | Fault \<Rightarrow> False)"

section \<open>Time\<close>

text \<open>
  A zone of the time zone database: the UTC offset in force at an instant (what
  \<^verbatim>\<open>datetime.now(tz)\<close> uses) and the offset the zone gives a wall-clock time (what
  \<^verbatim>\<open>replace(tzinfo=...)\<close> and \<^verbatim>\<open>localize\<close> use), both in microseconds. Looking a name up
  finds the zone, or raises. For a name that is not in the database zoneinfo raises
  \<^verbatim>\<open>ZoneInfoNotFoundError\<close> and pytz \<^verbatim>\<open>UnknownTimeZoneError\<close>, both subclasses of
  \<^verbatim>\<open>KeyError\<close>. For a key that is not a normalised relative path (\<open>BadKey\<close>) zoneinfo
  raises \<^verbatim>\<open>ValueError\<close>; to pytz such a key is one more unknown name.
\<close>

record zone =
  offset_at :: "int \<Rightarrow> int"
  offset_of_wall :: "int \<Rightarrow> int"

datatype tz_lookup = Found zone | NotFound | BadKey

text \<open>
  What a run meets outside the program: the time zone database, the instant (in
  microseconds, UTC) the clock shows when it is read for a config file, the offset of
  the system's local zone, \<^verbatim>\<open>datetime.strptime\<close> (\<open>None\<close>: \<^verbatim>\<open>ValueError\<close>) and
  \<^verbatim>\<open>strftime\<close> on wall-clock times, the answers of the network to the attempts made
  for a config file, whether a config file can be written, and the order in which sets
  are iterated.
\<close>

record env =
  tzdb :: "string \<Rightarrow> tz_lookup"
  clock :: "string \<Rightarrow> int"
  system_offset :: int
  strptime :: "string \<Rightarrow> string \<Rightarrow> int option"
  strftime :: "int \<Rightarrow> string \<Rightarrow> string"
  transport :: "string \<Rightarrow> nat \<Rightarrow> request \<Rightarrow> response"
  writable :: "string \<Rightarrow> bool"
  set_order :: "string \<Rightarrow> nat"

definition get_current_time :: "env \<Rightarrow> string \<Rightarrow> string \<Rightarrow> datetime" where
  "get_current_time w config_file tz_name =
     (case tzdb w tz_name of
        Found z \<Rightarrow>
          \<lparr>wall = clock w config_file + offset_at z (clock w config_file),
           tzinfo = Some (ZoneInfo tz_name),
           utcoffset = offset_at z (clock w config_file)\<rparr>
      | _ \<Rightarrow>
          \<lparr>wall = clock w config_file + system_offset w, tzinfo = None, utcoffset = 0\<rparr>)"

definition get_current_time_pkg :: "env \<Rightarrow> string \<Rightarrow> string \<Rightarrow> datetime \<times> event list" where
  "get_current_time_pkg w config_file tz_name =
     (case tzdb w tz_name of
        Found z \<Rightarrow>
          (\<lparr>wall = clock w config_file + offset_at z (clock w config_file),
            tzinfo = Some (Pytz tz_name (offset_at z (clock w config_file))),
            utcoffset = offset_at z (clock w config_file)\<rparr>, [])
      | _ \<Rightarrow>
          (\<lparr>wall = clock w config_file, tzinfo = Some PytzUTC, utcoffset = 0\<rparr>,
           [InvalidZone tz_name]))"

text \<open>
  The two statements under \<^verbatim>\<open>try\<close> (\<^verbatim>\<open>main.py\<close> lines 81 and 82): \<^verbatim>\<open>strptime\<close> runs
  first, then \<^verbatim>\<open>ZoneInfo(tz_name)\<close>, then \<^verbatim>\<open>get_current_time\<close>. The package (lines 65 to
  69) looks the zone up first.
\<close>

definition read_times :: "env \<Rightarrow> string \<Rightarrow> string \<Rightarrow> string \<Rightarrow> exn + datetime \<times> datetime" where
  "read_times w config_file trigger_time_str tz_name =
     (case strptime w trigger_time_str TIME_FORMAT of
        None \<Rightarrow> Inl ValueError
      | Some naive \<Rightarrow>
          (case tzdb w tz_name of
             NotFound \<Rightarrow> Inl KeyError
           | BadKey \<Rightarrow> Inl ValueError
           | Found z \<Rightarrow>
               Inr (\<lparr>wall = naive, tzinfo = Some (ZoneInfo tz_name),
                     utcoffset = offset_of_wall z naive\<rparr>,
                    get_current_time w config_file tz_name)))"

definition read_times_pkg ::
  "env \<Rightarrow> string \<Rightarrow> string \<Rightarrow> string \<Rightarrow> exn + datetime \<times> datetime \<times> event list"
where
  "read_times_pkg w config_file trigger_time_str tz_name =
     (case tzdb w tz_name of
        NotFound \<Rightarrow> Inl KeyError
      | BadKey \<Rightarrow> Inl KeyError
      | Found target_tz \<Rightarrow>
          (case strptime w trigger_time_str TIME_FORMAT of
             None \<Rightarrow> Inl ValueError
           | Some naive_trigger_time \<Rightarrow>
               (let (current_time, out) = get_current_time_pkg w config_file tz_name
                in Inr (\<lparr>wall = naive_trigger_time,
                         tzinfo = Some (Pytz tz_name (offset_of_wall target_tz naive_trigger_time)),
                         utcoffset = offset_of_wall target_tz naive_trigger_time\<rparr>,
                        current_time, out))))"

text \<open>
  \<^verbatim>\<open>current_time - trigger_time\<close>, in microseconds. Two naive datetimes, or two with the
  same tzinfo object, are subtracted as wall-clock times; two aware ones with different
  objects as instants; a naive and an aware one raise \<^verbatim>\<open>TypeError\<close>.
\<close>

definition dt_sub :: "datetime \<Rightarrow> datetime \<Rightarrow> exn + int" where
  "dt_sub a b =
     (case (tzinfo a, tzinfo b) of
        (None, None) \<Rightarrow> Inr (wall a - wall b)
      | (Some x, Some y) \<Rightarrow>
          Inr (if x = y then wall a - wall b
               else (wall a - utcoffset a) - (wall b - utcoffset b))
      | _ \<Rightarrow> Inl TypeError)"

text \<open>
  \<^verbatim>\<open>diff.total_seconds() / 60\<close>. The source computes it in floating point; the model
  is exact. On a whole number of microseconds the two agree on every comparison the
  runner makes (with 0 and with 30), since rounding is monotone and 0, 1800 and 30 are
  floating-point numbers.
\<close>

definition total_seconds :: "int \<Rightarrow> real" where
  "total_seconds d = real_of_int d / 1000000"

section \<open>One config file\<close>

text \<open>
  The config files: the record a path holds, \<open>None\<close> where reading raises (no such
  file, not JSON).
\<close>

type_synonym store = "string \<Rightarrow> pydict task option"

text \<open>
  The branch of an eligible task (\<^verbatim>\<open>main.py\<close> lines 99 to 176). The result is the
  exception that leaves \<^verbatim>\<open>process_tasks\<close> if there is one, the output, the config files
  and whether \<^verbatim>\<open>files_changed\<close> was set.
\<close>

definition dispatch ::
  "env \<Rightarrow> secret \<Rightarrow> string \<Rightarrow> nat task \<Rightarrow> heap \<Rightarrow> datetime \<Rightarrow> store
     \<Rightarrow> exn option \<times> event list \<times> store \<times> bool"
where
  "dispatch w secret_keys config_file data h current_time files =
     (let url = webhook_url data;
          method = upper (case method' data of None \<Rightarrow> ''POST'' | Some m \<Rightarrow> m);
          (payload, h', out1) = build_payload (set_order w) secret_keys data h;
          (success, out2) =
            send_with_retry (transport w config_file) (make_request method url (h' ! payload))
      in if success then
           (let data' = data\<lparr>executed := True,
                              executed_at := Some (strftime w (wall current_time) TIME_FORMAT)\<rparr>
            in if writable w config_file
               then (None, [Preparing] @ out1 @ out2 @ [Saved],
                     files(config_file \<mapsto> dump data' h'), True)
               else (Some OSError, [Preparing] @ out1 @ out2, files, False))
         else (None, [Preparing] @ out1 @ out2 @ [GaveUp], files, False))"

text \<open>The package's branch (lines 79 to 152): the write is under \<^verbatim>\<open>try\<close>.\<close>

definition dispatch_pkg ::
  "env \<Rightarrow> secret \<Rightarrow> string \<Rightarrow> nat task \<Rightarrow> heap \<Rightarrow> datetime \<Rightarrow> store
     \<Rightarrow> exn option \<times> event list \<times> store \<times> bool"
where
  "dispatch_pkg w secret_keys config_file data h current_time files =
     (let url = webhook_url data;
          method = upper (case method' data of None \<Rightarrow> ''POST'' | Some m \<Rightarrow> m);
          (payload, h', out1) = build_payload (set_order w) secret_keys data h;
          (success, out2) =
            send_with_retry_pkg (transport w config_file)
              (make_request_pkg method url (h' ! payload))
      in if success then
           (let data' = data\<lparr>executed := True,
                              executed_at := Some (strftime w (wall current_time) TIME_FORMAT)\<rparr>
            in if writable w config_file
               then (None, [Preparing] @ out1 @ out2 @ [Saved],
                     files(config_file \<mapsto> dump data' h'), True)
               else (None, [Preparing] @ out1 @ out2 @ [SaveFailed], files, False))
         else (None, [Preparing] @ out1 @ out2 @ [GaveUp], files, False))"

text \<open>
  The window test (\<^verbatim>\<open>main.py\<close> lines 89 to 182) on the two datetimes, \<open>run\<close> being the
  branch of an eligible task.
\<close>

definition check_window ::
  "(datetime \<Rightarrow> exn option \<times> event list \<times> store \<times> bool) \<Rightarrow> datetime \<Rightarrow> datetime \<Rightarrow> store
     \<Rightarrow> exn option \<times> event list \<times> store \<times> bool"
where
  "check_window run trigger_time' current_time files =
     (case dt_sub current_time trigger_time' of
        Inl e \<Rightarrow> (Some e, [], files, False)
      | Inr diff \<Rightarrow>
          (let diff_minutes = total_seconds diff / 60;
               shown = [ShowTimes trigger_time' current_time, ShowDelay diff_minutes]
           in if 0 \<le> diff_minutes \<and> diff_minutes \<le> TOLERANCE_MINUTES then
                (case run current_time of
                   (raised, out, files', changed) \<Rightarrow> (raised, shown @ out, files', changed))
              else if diff_minutes < 0 then (None, shown @ [NotYetDue], files, False)
              else (None, shown @ [Expired], files, False)))"

text \<open>
  The body of the loop over the config files (\<^verbatim>\<open>main.py\<close> lines 58 to 182; the
  package's lines 49 to 157). The names \<^verbatim>\<open>data\<close> and \<^verbatim>\<open>payload\<close> are bound anew in every
  pass, so the store of dict objects starts empty: no object of an earlier pass can be
  reached.
\<close>

definition loop_body ::
  "env \<Rightarrow> secret \<Rightarrow> string \<Rightarrow> store \<Rightarrow> exn option \<times> event list \<times> store \<times> bool"
where
  "loop_body w secret_keys config_file files =
     (case files config_file of
        None \<Rightarrow> (None, [Checking config_file, ReadFailed], files, False)
      | Some file \<Rightarrow>
          (let (data, h) = load file [] in
           if executed data then (None, [Checking config_file, SkipExecuted], files, False)
           else
             (case trigger_time data of
                None \<Rightarrow> (None, [Checking config_file], files, False)
              | Some trigger_time_str \<Rightarrow>
                  if trigger_time_str = [] then (None, [Checking config_file], files, False)
                  else
                    (let tz_name = (case timezone data of
                                      None \<Rightarrow> ''Asia/Shanghai'' | Some z \<Rightarrow> z)
                     in case read_times w config_file trigger_time_str tz_name of
                          Inl ValueError \<Rightarrow>
                            (None, [Checking config_file, TimeFormatError], files, False)
                        | Inl e \<Rightarrow> (Some e, [Checking config_file], files, False)
                        | Inr (trigger_time', current_time) \<Rightarrow>
                            (case check_window
                                    (\<lambda>now. dispatch w secret_keys config_file data h now files)
                                    trigger_time' current_time files of
                               (raised, out, files', changed) \<Rightarrow>
                                 (raised, Checking config_file # out, files', changed))))))"

definition loop_body_pkg ::
  "env \<Rightarrow> secret \<Rightarrow> string \<Rightarrow> store \<Rightarrow> exn option \<times> event list \<times> store \<times> bool"
where
  "loop_body_pkg w secret_keys config_file files =
     (case files config_file of
        None \<Rightarrow> (None, [Checking config_file, ReadFailed], files, False)
      | Some file \<Rightarrow>
          (let (data, h) = load file [] in
           if executed data then (None, [Checking config_file, SkipExecuted], files, False)
           else
             (case trigger_time data of
                None \<Rightarrow> (None, [Checking config_file], files, False)
              | Some trigger_time_str \<Rightarrow>
                  if trigger_time_str = [] then (None, [Checking config_file], files, False)
                  else
                    (let tz_name = (case timezone data of
                                      None \<Rightarrow> ''Asia/Shanghai'' | Some z \<Rightarrow> z)
                     in case read_times_pkg w config_file trigger_time_str tz_name of
                          Inl ValueError \<Rightarrow>
                            (None, [Checking config_file, TimeFormatError], files, False)
                        | Inl e \<Rightarrow> (Some e, [Checking config_file], files, False)
                        | Inr (trigger_time', current_time, out0) \<Rightarrow>
                            (case check_window
                                    (\<lambda>now. dispatch_pkg w secret_keys config_file data h now files)
                                    trigger_time' current_time files of
                               (raised, out, files', changed) \<Rightarrow>
                                 (raised, Checking config_file # out0 @ out, files', changed))))))"

section \<open>The run\<close>

text \<open>
  The loop \<^verbatim>\<open>for config_file in config_files\<close>, with the output so far, the config
  files and \<^verbatim>\<open>files_changed\<close> as state. An exception that no \<^verbatim>\<open>except\<close> catches ends
  the loop.
\<close>

fun for_config_files ::
  "(string \<Rightarrow> store \<Rightarrow> exn option \<times> event list \<times> store \<times> bool) \<Rightarrow> string list
     \<Rightarrow> event list \<times> store \<times> bool \<Rightarrow> exn option \<times> event list \<times> store \<times> bool"
where
  "for_config_files step [] (out, files, files_changed) = (None, out, files, files_changed)"
| "for_config_files step (config_file # rest) (out, files, files_changed) =
     (case step config_file files of
        (Some e, out', files', changed) \<Rightarrow> (Some e, out @ out', files', files_changed \<or> changed)
      | (None, out', files', changed) \<Rightarrow>
          for_config_files step rest (out @ out', files', files_changed \<or> changed))"

text \<open>
  \<^verbatim>\<open>process_tasks\<close> from line 50 on, given the keys \<^verbatim>\<open>load_secret_keys\<close> returned and the
  sorted list of config files: the exception that ended the run if there is one, the
  output and the config files afterwards.
\<close>

definition summary ::
  "exn option \<times> event list \<times> store \<times> bool \<Rightarrow> exn option \<times> event list \<times> store"
where
  "summary r =
     (case r of
        (Some e, out, files, files_changed) \<Rightarrow> (Some e, out, files)
      | (None, out, files, files_changed) \<Rightarrow>
          (None, out @ [if files_changed then SummaryChanged else SummaryUnchanged], files))"

definition process_tasks :: "env \<Rightarrow> secret \<Rightarrow> string list \<Rightarrow> store \<Rightarrow> exn option \<times> event list \<times> store" where
  "process_tasks w secret_keys config_files files =
     (if config_files = [] then (None, [NoConfigFiles], files)
      else summary (for_config_files (loop_body w secret_keys) config_files ([], files, False)))"

definition process_tasks_pkg :: "env \<Rightarrow> secret \<Rightarrow> string list \<Rightarrow> store \<Rightarrow> exn option \<times> event list \<times> store" where
  "process_tasks_pkg w secret_keys config_files files =
     (if config_files = [] then (None, [NoConfigFiles], files)
      else summary (for_config_files (loop_body_pkg w secret_keys) config_files ([], files, False)))"

section \<open>Observations\<close>

text \<open>The HTTP method a call goes out with.\<close>

definition verb :: "request \<Rightarrow> string" where
  "verb r = (case r of Get url payload t \<Rightarrow> ''GET'' | Post url payload t \<Rightarrow> ''POST''
             | SendRequest m url payload t \<Rightarrow> m)"

text \<open>The dict \<^verbatim>\<open>payload\<close> refers to when the requests are sent.\<close>

definition outgoing :: "(string \<Rightarrow> nat) \<Rightarrow> secret \<Rightarrow> nat task \<Rightarrow> heap \<Rightarrow> pydict" where
  "outgoing order secret_keys data h =
     (case build_payload order secret_keys data h of (payload, h', out) \<Rightarrow> h' ! payload)"

text \<open>The keys a body declares, and its other entries; an absent body declares none.\<close>

definition declared_keys :: "pydict option \<Rightarrow> string list" where
  "declared_keys b =
     (case b of None \<Rightarrow> [] | Some d \<Rightarrow> (case device_keys d of None \<Rightarrow> [] | Some ks \<Rightarrow> ks))"

definition other_entries :: "pydict option \<Rightarrow> (string \<times> json) list" where
  "other_entries b = (case b of None \<Rightarrow> [] | Some d \<Rightarrow> other_items d)"

text \<open>
  The number of attempts the delivery engine of the specification makes: it stops at the
  first attempt of 1, 2, 3 whose response has a status in [200, 300), and after the
  third.
\<close>

definition attempts_made :: "(nat \<Rightarrow> request \<Rightarrow> response) \<Rightarrow> request \<Rightarrow> nat" where
  "attempts_made http req =
     (if is_2xx (http 1 req) then 1 else if is_2xx (http 2 req) then 2 else 3)"

text \<open>
  What one pass of the loop body may do to the config files: nothing, or mark the file it
  was given, which was not marked before, as executed.
\<close>

definition marked :: "store \<Rightarrow> string \<Rightarrow> store \<Rightarrow> bool" where
  "marked files cf files' \<longleftrightarrow>
     files' = files
     \<or> (\<exists>file ts. files cf = Some file \<and> \<not> executed file
           \<and> files' = files(cf \<mapsto> file\<lparr>executed := True, executed_at := Some ts\<rparr>))"

section \<open>Example inputs\<close>

text \<open>
  A world for the concrete runs below: the zone \<^verbatim>\<open>UTC\<close> and no other, a clock that
  shows 01:00:00 on 1 January 1970, a network that answers the attempts as \<open>answers\<close>
  says, and config files that can be written or not.
\<close>

definition utc :: zone where
  "utc = \<lparr>offset_at = (\<lambda>t. 0), offset_of_wall = (\<lambda>t. 0)\<rparr>"

definition example_env :: "(nat \<Rightarrow> response) \<Rightarrow> bool \<Rightarrow> env" where
  "example_env answers can_write =
     \<lparr>tzdb = (\<lambda>name. if name = ''UTC'' then Found utc else NotFound),
      clock = (\<lambda>config_file. 3600000000),
      system_offset = 0,
      strptime = (\<lambda>s fmt.
        if fmt \<noteq> TIME_FORMAT then None
        else map_of [(''1970-01-01 00:15:00'', 900000000),
                     (''1970-01-01 00:30:00'', 1800000000),
                     (''1970-01-01 00:50:00'', 3000000000),
                     (''1970-01-01 01:00:00'', 3600000000),
                     (''1970-01-01 01:05:00'', 3900000000)] s),
      strftime = (\<lambda>t fmt. ''1970-01-01 01:00:00''),
      transport = (\<lambda>config_file attempt req. answers attempt),
      writable = (\<lambda>config_file. can_write),
      set_order = length\<rparr>"

definition example_task :: "string \<Rightarrow> string \<Rightarrow> string option \<Rightarrow> pydict task" where
  "example_task when tz verb_name =
     \<lparr>executed = False, executed_at = None, trigger_time = Some when, timezone = Some tz,
      webhook_url = Some ''https://example.org/hook'', method' = verb_name,
      body = Some \<lparr>device_keys = Some [''ipad''], other_items = [(''title'', JString ''hi'')]\<rparr>\<rparr>"

text \<open>
  A world with the zone \<^verbatim>\<open>Europe/Berlin\<close> on 31 March 2024, when its offset goes from one
  hour to two at 01:00 UTC (02:00 on the wall clock). Times are microseconds since
  1 January 1970. The clock shows 01:05 UTC, which is 03:05 in the zone; the one trigger
  time that parses is 01:50 on the wall clock, which is 00:50 UTC.
\<close>

definition berlin :: zone where
  "berlin =
     \<lparr>offset_at = (\<lambda>instant. if instant < 1711846800000000 then 3600000000 else 7200000000),
      offset_of_wall = (\<lambda>t. if t < 1711850400000000 then 3600000000 else 7200000000)\<rparr>"

definition offset_change_env :: env where
  "offset_change_env =
     \<lparr>tzdb = (\<lambda>name. if name = ''Europe/Berlin'' then Found berlin else NotFound),
      clock = (\<lambda>config_file. 1711847100000000),
      system_offset = 0,
      strptime = (\<lambda>s fmt.
        if fmt = TIME_FORMAT \<and> s = ''2024-03-31 01:50:00'' then Some 1711849800000000
        else None),
      strftime = (\<lambda>t fmt. ''2024-03-31 03:05:00''),
      transport = (\<lambda>config_file attempt req. Status 200),
      writable = (\<lambda>config_file. True),
      set_order = length\<rparr>"

section \<open>Properties of the injection\<close>

lemma set_list_set: "set (list_set order xs) = set xs"
  by (simp add: list_set_def)

lemma distinct_list_set: "distinct (list_set order xs)"
  by (simp add: list_set_def)

lemma replace_aliases_map:
  "fst (replace_aliases m items (acc, out)) = acc @ map (substitute m) items"
  by (induction items arbitrary: acc out) (auto simp: substitute_def split: option.splits)

lemma replace_aliases_out:
  "snd (replace_aliases m items (acc, out))
     = out @ map ReplaceAlias (filter (\<lambda>i. DAList.lookup m i \<noteq> None) items)"
  by (induction items arbitrary: acc out) (auto split: option.splits)

lemma inject_dict:
  "fst (inject_keys order (SecretDict m) keys) =
     (if keys = [] then map snd (DAList.impl_of m) else map (substitute m) keys)"
  by (simp add: inject_keys_def replace_aliases_map)

lemma inject_list:
  "fst (inject_keys order (SecretList ks) keys) =
     (if ks = [] then keys else list_set order (keys @ ks))"
  by (simp add: inject_keys_def)

lemma substitute_fixed:
  "map (substitute m) xs = xs \<longleftrightarrow> (\<forall>x \<in> set xs. substitute m x = x)"
  by (induction xs) auto

section \<open>Properties of the output\<close>

lemma http_calls_simps:
  "http_calls [] = []"
  "http_calls (xs @ ys) = http_calls xs @ http_calls ys"
  "http_calls (e # es) = (case e of Http r \<Rightarrow> [r] | _ \<Rightarrow> []) @ http_calls es"
  by (auto simp: http_calls_def List.map_filter_def split: event.splits)

lemma sleeps_simps:
  "sleeps [] = []"
  "sleeps (xs @ ys) = sleeps xs @ sleeps ys"
  "sleeps (e # es) = (case e of Sleep n \<Rightarrow> [n] | _ \<Rightarrow> []) @ sleeps es"
  by (auto simp: sleeps_def List.map_filter_def split: event.splits)

lemma attempts_simps:
  "attempts [] = []"
  "attempts (xs @ ys) = attempts xs @ attempts ys"
  "attempts (e # es) = (case e of Sending n \<Rightarrow> [n] | _ \<Rightarrow> []) @ attempts es"
  by (auto simp: attempts_def List.map_filter_def split: event.splits)

lemmas observe = http_calls_simps sleeps_simps attempts_simps

lemma quiet_ReplaceAlias:
  "http_calls (map ReplaceAlias xs) = []" "attempts (map ReplaceAlias xs) = []"
  "sleeps (map ReplaceAlias xs) = []"
  by (induction xs) (auto simp: observe)

lemma inject_keys_quiet:
  "http_calls (snd (inject_keys order sk keys)) = []"
  "attempts (snd (inject_keys order sk keys)) = []"
  "sleeps (snd (inject_keys order sk keys)) = []"
  by (auto simp: inject_keys_def observe replace_aliases_out quiet_ReplaceAlias split: secret.splits)

section \<open>Properties of sending\<close>

lemma attempt_range: "[1..<MAX_RETRIES + 1] = [1, 2, 3]"
  by (simp add: MAX_RETRIES_def upt_rec)

lemma attempt_range': "[Suc 0..<4] = [1, 2, 3]"
  by (simp add: upt_rec)

lemma send_attempts_calls:
  "http_calls (snd (send_attempts http req as))
     = replicate (length (attempts (snd (send_attempts http req as)))) req"
  by (induction as) (auto simp: observe split: response.splits prod.splits)

lemma send_attempts_pkg_calls:
  "http_calls (snd (send_attempts_pkg http req as))
     = replicate (length (attempts (snd (send_attempts_pkg http req as)))) req"
  by (induction as) (auto simp: observe split: response.splits prod.splits)

lemma send_first:
  "http_calls (snd (send_with_retry http req)) \<noteq> []"
  "attempts (snd (send_with_retry http req)) \<noteq> []"
  "hd (attempts (snd (send_with_retry http req))) = 1"
  "http_calls (snd (send_with_retry_pkg http req)) \<noteq> []"
  "attempts (snd (send_with_retry_pkg http req)) \<noteq> []"
  "hd (attempts (snd (send_with_retry_pkg http req))) = 1"
  unfolding send_with_retry_def send_with_retry_pkg_def attempt_range
  by (auto simp: observe split: response.splits prod.splits)

section \<open>Properties of the payload\<close>

lemma load_eq:
  "load file h0 =
     (with_body file (map_option (\<lambda>d. length h0) (body file)),
      h0 @ (case body file of None \<Rightarrow> [] | Some d \<Rightarrow> [d]))"
  by (auto simp: load_def alloc_def split: option.splits)

lemma loaded_fields:
  assumes "load file h0 = (data, h)"
  shows "executed data = executed file" "trigger_time data = trigger_time file"
    "timezone data = timezone file"
  using assms by (auto simp: load_eq with_body_def)

lemma build_payload_loaded:
  assumes "load file h0 = (data, h)"
  shows "build_payload order sk data h =
           (Suc (length h0),
            h0 @ [case body file of None \<Rightarrow> \<lparr>device_keys = None, other_items = []\<rparr> | Some d \<Rightarrow> d,
                  \<lparr>device_keys = Some (fst (inject_keys order sk (declared_keys (body file)))),
                   other_items = other_entries (body file)\<rparr>],
            snd (inject_keys order sk (declared_keys (body file))))"
  using assms unfolding load_eq
  by (auto simp: build_payload_def with_body_def alloc_def deepcopy_def setitem_device_keys_def
        getitem_device_keys_def declared_keys_def other_entries_def nth_append list_update_append
        split: option.splits prod.splits)

lemma dump_loaded:
  assumes "load file h0 = (data, h)"
  shows "dump (data\<lparr>executed := e, executed_at := t\<rparr>) (h0 @ [case body file of None \<Rightarrow> d0 | Some d \<Rightarrow> d, p])
           = file\<lparr>executed := e, executed_at := t\<rparr>"
  using assms unfolding load_eq
  by (auto simp: dump_def with_body_def nth_append split: option.splits)

lemma build_payload_quiet:
  "http_calls (snd (snd (build_payload order sk data h))) = []"
  "attempts (snd (snd (build_payload order sk data h))) = []"
  by (simp_all add: build_payload_def Let_def case_prod_beta inject_keys_quiet)

section \<open>Properties of the loop body\<close>

lemma dispatch_loaded:
  assumes "load file [] = (data, h)"
  shows "dispatch w sk cf data h now files =
     (let out1 = snd (inject_keys (set_order w) sk (declared_keys (body file)));
          r = send_with_retry (transport w cf)
                (make_request (upper (case method' file of None \<Rightarrow> ''POST'' | Some m \<Rightarrow> m))
                   (webhook_url file)
                   \<lparr>device_keys = Some (fst (inject_keys (set_order w) sk (declared_keys (body file)))),
                    other_items = other_entries (body file)\<rparr>)
      in if fst r then
           if writable w cf
           then (None, [Preparing] @ out1 @ snd r @ [Saved],
                 files(cf \<mapsto> file\<lparr>executed := True,
                                   executed_at := Some (strftime w (wall now) TIME_FORMAT)\<rparr>), True)
           else (Some OSError, [Preparing] @ out1 @ snd r, files, False)
         else (None, [Preparing] @ out1 @ snd r @ [GaveUp], files, False))"
proof -
  have fields: "webhook_url data = webhook_url file" "method' data = method' file"
    using assms by (auto simp: load_eq with_body_def)
  show ?thesis
    unfolding dispatch_def build_payload_loaded [OF assms] fields
    using dump_loaded [OF assms, where e = True]
    by (simp add: Let_def split: prod.splits)
qed

lemma dispatch_pkg_loaded:
  assumes "load file [] = (data, h)"
  shows "dispatch_pkg w sk cf data h now files =
     (let out1 = snd (inject_keys (set_order w) sk (declared_keys (body file)));
          r = send_with_retry_pkg (transport w cf)
                (make_request_pkg (upper (case method' file of None \<Rightarrow> ''POST'' | Some m \<Rightarrow> m))
                   (webhook_url file)
                   \<lparr>device_keys = Some (fst (inject_keys (set_order w) sk (declared_keys (body file)))),
                    other_items = other_entries (body file)\<rparr>)
      in if fst r then
           if writable w cf
           then (None, [Preparing] @ out1 @ snd r @ [Saved],
                 files(cf \<mapsto> file\<lparr>executed := True,
                                   executed_at := Some (strftime w (wall now) TIME_FORMAT)\<rparr>), True)
           else (None, [Preparing] @ out1 @ snd r @ [SaveFailed], files, False)
         else (None, [Preparing] @ out1 @ snd r @ [GaveUp], files, False))"
proof -
  have fields: "webhook_url data = webhook_url file" "method' data = method' file"
    using assms by (auto simp: load_eq with_body_def)
  show ?thesis
    unfolding dispatch_pkg_def build_payload_loaded [OF assms] fields
    using dump_loaded [OF assms, where e = True]
    by (simp add: Let_def split: prod.splits)
qed

lemma dispatch_out:
  "\<exists>rest. fst (snd (dispatch w sk cf data h now files))
      = [Preparing] @ snd (snd (build_payload (set_order w) sk data h))
        @ snd (send_with_retry (transport w cf)
                (make_request (upper (case method' data of None \<Rightarrow> ''POST'' | Some m \<Rightarrow> m))
                   (webhook_url data) (outgoing (set_order w) sk data h)))
        @ rest
      \<and> http_calls rest = [] \<and> attempts rest = []"
  by (auto simp: dispatch_def outgoing_def Let_def observe split: prod.splits)

lemma dispatch_pkg_out:
  "\<exists>rest. fst (snd (dispatch_pkg w sk cf data h now files))
      = [Preparing] @ snd (snd (build_payload (set_order w) sk data h))
        @ snd (send_with_retry_pkg (transport w cf)
                (make_request_pkg (upper (case method' data of None \<Rightarrow> ''POST'' | Some m \<Rightarrow> m))
                   (webhook_url data) (outgoing (set_order w) sk data h)))
        @ rest
      \<and> http_calls rest = [] \<and> attempts rest = []"
  by (auto simp: dispatch_pkg_def outgoing_def Let_def observe split: prod.splits)

lemma dispatch_attempted:
  assumes "load file [] = (data, h)"
  shows "\<exists>raised out files' changed.
           dispatch w sk cf data h now files = (raised, Preparing # out, files', changed)
           \<and> http_calls out \<noteq> [] \<and> hd (attempts out) = 1"
    and "\<exists>raised out files' changed.
           dispatch_pkg w sk cf data h now files = (raised, Preparing # out, files', changed)
           \<and> http_calls out \<noteq> [] \<and> hd (attempts out) = 1"
  unfolding dispatch_loaded [OF assms] dispatch_pkg_loaded [OF assms]
  by (auto simp: Let_def observe inject_keys_quiet send_first)

lemma check_window_files:
  assumes "\<And>now. P (fst (snd (snd (run now))))" and "P files"
  shows "P (fst (snd (snd (check_window run trig cur files))))"
  using assms(1) [of cur] assms(2) unfolding check_window_def
  by (auto simp: Let_def split: sum.splits prod.splits)

lemma dispatch_marked:
  assumes "load file [] = (data, h)" and "files cf = Some file" and "\<not> executed file"
  shows "marked files cf (fst (snd (snd (dispatch w sk cf data h now files))))"
    and "marked files cf (fst (snd (snd (dispatch_pkg w sk cf data h now files))))"
  using assms(2,3)
  unfolding dispatch_loaded [OF assms(1)] dispatch_pkg_loaded [OF assms(1)] marked_def
  by (auto simp: Let_def)

lemma loop_body_marked: "marked files cf (fst (snd (snd (loop_body w sk cf files))))"
proof (cases "files cf")
  case None
  then show ?thesis by (simp add: loop_body_def marked_def)
next
  case (Some f)
  obtain data h where ld: "load f [] = (data, h)" by (cases "load f []")
  show ?thesis
  proof (cases "executed f")
    case True
    then show ?thesis using Some ld loaded_fields [OF ld]
      by (simp add: loop_body_def marked_def)
  next
    case False
    have same: "marked files cf files" by (simp add: marked_def)
    have win: "marked files cf (fst (snd (snd (check_window (\<lambda>now. dispatch w sk cf data h now files) a b files))))" for a b
      by (rule check_window_files) (use dispatch_marked [where files = files and cf = cf, OF ld Some False] same in auto)
    show ?thesis
      using Some ld loaded_fields [OF ld] False same win
      by (auto simp: loop_body_def Let_def case_prod_beta split: option.splits sum.splits exn.splits)
  qed
qed

lemma loop_body_pkg_marked: "marked files cf (fst (snd (snd (loop_body_pkg w sk cf files))))"
proof (cases "files cf")
  case None
  then show ?thesis by (simp add: loop_body_pkg_def marked_def)
next
  case (Some f)
  obtain data h where ld: "load f [] = (data, h)" by (cases "load f []")
  show ?thesis
  proof (cases "executed f")
    case True
    then show ?thesis using Some ld loaded_fields [OF ld]
      by (simp add: loop_body_pkg_def marked_def)
  next
    case False
    have same: "marked files cf files" by (simp add: marked_def)
    have win: "marked files cf (fst (snd (snd (check_window (\<lambda>now. dispatch_pkg w sk cf data h now files) a b files))))" for a b
      by (rule check_window_files) (use dispatch_marked [where files = files and cf = cf, OF ld Some False] same in auto)
    show ?thesis
      using Some ld loaded_fields [OF ld] False same win
      by (auto simp: loop_body_pkg_def Let_def case_prod_beta split: option.splits sum.splits exn.splits)
  qed
qed

lemma marked_keeps:
  assumes "marked files cf files'" and "files p = Some f" and "executed f"
  shows "files' p = Some f"
  using assms by (auto simp: marked_def)

lemma marked_body:
  assumes "marked files cf files'"
  shows "map_option body (files' p) = map_option body (files p)"
  using assms by (auto simp: marked_def)

lemma loop_body_executed:
  assumes "files cf = Some f" and "executed f"
  shows "loop_body w sk cf files = (None, [Checking cf, SkipExecuted], files, False)"
    and "loop_body_pkg w sk cf files = (None, [Checking cf, SkipExecuted], files, False)"
  using assms by (auto simp: loop_body_def loop_body_pkg_def load_eq with_body_def)

lemma loop_body_timed:
  assumes "files cf = Some file" and "\<not> executed file" and "trigger_time file = Some s"
    and "s \<noteq> []" and "strptime w s TIME_FORMAT = Some t"
    and "tzdb w (case timezone file of None \<Rightarrow> ''Asia/Shanghai'' | Some name \<Rightarrow> name) = Found z"
    and "load file [] = (data, h)"
  shows "loop_body w sk cf files =
     (let tz = (case timezone file of None \<Rightarrow> ''Asia/Shanghai'' | Some name \<Rightarrow> name);
          delta = total_seconds (clock w cf + offset_at z (clock w cf) - t) / 60;
          shown = [Checking cf,
                   ShowTimes \<lparr>wall = t, tzinfo = Some (ZoneInfo tz), utcoffset = offset_of_wall z t\<rparr>
                     (get_current_time w cf tz),
                   ShowDelay delta]
      in if 0 \<le> delta \<and> delta \<le> 30 then
           (case dispatch w sk cf data h (get_current_time w cf tz) files of
              (raised, out, files', changed) \<Rightarrow> (raised, shown @ out, files', changed))
         else if delta < 0 then (None, shown @ [NotYetDue], files, False)
         else (None, shown @ [Expired], files, False))"
  using assms loaded_fields [OF assms(7)]
  by (auto simp: loop_body_def read_times_def get_current_time_def check_window_def dt_sub_def
        TOLERANCE_MINUTES_def Let_def split: prod.splits)

lemma loop_body_pkg_timed:
  assumes "files cf = Some file" and "\<not> executed file" and "trigger_time file = Some s"
    and "s \<noteq> []" and "strptime w s TIME_FORMAT = Some t"
    and "tzdb w (case timezone file of None \<Rightarrow> ''Asia/Shanghai'' | Some name \<Rightarrow> name) = Found z"
    and "load file [] = (data, h)"
  shows "loop_body_pkg w sk cf files =
     (let tz = (case timezone file of None \<Rightarrow> ''Asia/Shanghai'' | Some name \<Rightarrow> name);
          delta = total_seconds (clock w cf - (t - offset_of_wall z t)) / 60;
          shown = [Checking cf,
                   ShowTimes \<lparr>wall = t, tzinfo = Some (Pytz tz (offset_of_wall z t)),
                              utcoffset = offset_of_wall z t\<rparr>
                     (fst (get_current_time_pkg w cf tz)),
                   ShowDelay delta]
      in if 0 \<le> delta \<and> delta \<le> 30 then
           (case dispatch_pkg w sk cf data h (fst (get_current_time_pkg w cf tz)) files of
              (raised, out, files', changed) \<Rightarrow> (raised, shown @ out, files', changed))
         else if delta < 0 then (None, shown @ [NotYetDue], files, False)
         else (None, shown @ [Expired], files, False))"
  using assms loaded_fields [OF assms(7)]
  by (auto simp: loop_body_pkg_def read_times_pkg_def get_current_time_pkg_def check_window_def
        dt_sub_def TOLERANCE_MINUTES_def Let_def algebra_simps split: prod.splits)

lemma unknown_zone_raises:
  assumes "files cf = Some record" and "\<not> executed record"
    and "trigger_time record = Some s" and "s \<noteq> []"
    and "tzdb w (case timezone record of None \<Rightarrow> ''Asia/Shanghai'' | Some name \<Rightarrow> name) = NotFound"
  shows "strptime w s TIME_FORMAT \<noteq> None \<longrightarrow>
           loop_body w sk cf files = (Some KeyError, [Checking cf], files, False)"
    and "loop_body_pkg w sk cf files = (Some KeyError, [Checking cf], files, False)"
  using assms
  by (auto simp: loop_body_def loop_body_pkg_def load_eq with_body_def read_times_def
        read_times_pkg_def Let_def)

section \<open>Properties of the run\<close>

lemma for_config_files_keeps:
  assumes step: "\<And>cf files. marked files cf (fst (snd (snd (step cf files))))"
    and "files p = Some f" and "executed f"
  shows "fst (snd (snd (for_config_files step cfs (out, files, ch)))) p = Some f"
  using assms(2)
proof (induction cfs arbitrary: out files ch)
  case Nil
  then show ?case by simp
next
  case (Cons cf cfs)
  obtain r out' files' ch' where st: "step cf files = (r, out', files', ch')"
    by (cases "step cf files")
  have "marked files cf files'" using step [of files cf] st by simp
  then have keep: "files' p = Some f" using Cons.prems assms(3) by (rule marked_keeps)
  show ?case
  proof (cases r)
    case None
    then show ?thesis using st Cons.IH [of files'] keep by simp
  next
    case (Some e)
    then show ?thesis using st keep by simp
  qed
qed

lemma summary_files: "snd (snd (summary r)) = fst (snd (snd r))"
  by (cases r) (auto simp: summary_def split: option.splits)

lemmas eval_defs = attempt_range' process_tasks_def process_tasks_pkg_def summary_def
  loop_body_def loop_body_pkg_def load_def alloc_def with_body_def read_times_def
  read_times_pkg_def get_current_time_def get_current_time_pkg_def check_window_def dt_sub_def
  total_seconds_def TOLERANCE_MINUTES_def dispatch_def dispatch_pkg_def build_payload_def
  deepcopy_def setitem_device_keys_def getitem_device_keys_def inject_keys_def make_request_def
  make_request_pkg_def send_with_retry_def send_with_retry_pkg_def MAX_RETRIES_def
  RETRY_DELAY_def dump_def Let_def upper_def upper_char_def example_env_def example_task_def
  utc_def TIME_FORMAT_def

text \<open>
  A run of \<^verbatim>\<open>main.py\<close> over four config files: one due for 10 minutes, one due in 5 minutes,
  one due for 45 minutes and one that cannot be read.
\<close>

lemma end_to_end_scenarios:
  "process_tasks (example_env (\<lambda>attempt. Status 200) True) (SecretList [''KEY1''])
     [''a.json'', ''b.json'', ''c.json'', ''d.json'']
     (map_of [(''a.json'', example_task ''1970-01-01 00:50:00'' ''UTC'' None),
              (''b.json'', example_task ''1970-01-01 01:05:00'' ''UTC'' None),
              (''c.json'', example_task ''1970-01-01 00:15:00'' ''UTC'' None)])
   = (None,
      [Checking ''a.json'',
       ShowTimes \<lparr>wall = 3000000000, tzinfo = Some (ZoneInfo ''UTC''), utcoffset = 0\<rparr>
                 \<lparr>wall = 3600000000, tzinfo = Some (ZoneInfo ''UTC''), utcoffset = 0\<rparr>,
       ShowDelay 10, Preparing, InjectAppend 1, Sending 1,
       Http (Post (Some ''https://example.org/hook'')
               \<lparr>device_keys = Some [''ipad'', ''KEY1''],
                other_items = [(''title'', JString ''hi'')]\<rparr> 20),
       SendOk 200, Saved,
       Checking ''b.json'',
       ShowTimes \<lparr>wall = 3900000000, tzinfo = Some (ZoneInfo ''UTC''), utcoffset = 0\<rparr>
                 \<lparr>wall = 3600000000, tzinfo = Some (ZoneInfo ''UTC''), utcoffset = 0\<rparr>,
       ShowDelay (- 5), NotYetDue,
       Checking ''c.json'',
       ShowTimes \<lparr>wall = 900000000, tzinfo = Some (ZoneInfo ''UTC''), utcoffset = 0\<rparr>
                 \<lparr>wall = 3600000000, tzinfo = Some (ZoneInfo ''UTC''), utcoffset = 0\<rparr>,
       ShowDelay 45, Expired,
       Checking ''d.json'', ReadFailed,
       SummaryChanged],
      map_of [(''a.json'', (example_task ''1970-01-01 00:50:00'' ''UTC'' None)
                 \<lparr>executed := True, executed_at := Some ''1970-01-01 01:00:00''\<rparr>),
              (''b.json'', example_task ''1970-01-01 01:05:00'' ''UTC'' None),
              (''c.json'', example_task ''1970-01-01 00:15:00'' ''UTC'' None)])"
  by (simp add: eval_defs list_set_def fun_eq_iff)

section \<open>The eligibility decision\<close>

text \<open>
  Claim C1. A config file whose record has \<^verbatim>\<open>executed\<close> true is skipped as soon as it is
  read, in both runners: the pass prints that it skips the task and nothing else, sends
  nothing, raises nothing and leaves the config files and \<^verbatim>\<open>files_changed\<close> as they
  were, whatever the record's \<^verbatim>\<open>trigger_time\<close> and \<^verbatim>\<open>timezone\<close> hold and whatever the
  world is. After a run over any list of config files, finished or ended by an
  exception, the file still holds the same record: \<^verbatim>\<open>executed\<close> true is never taken
  back.
\<close>

theorem executed_is_terminal:
  assumes "files cf = Some record" and "executed record"
  shows "loop_body w sk cf files = (None, [Checking cf, SkipExecuted], files, False)
       \<and> loop_body_pkg w sk cf files = (None, [Checking cf, SkipExecuted], files, False)
       \<and> snd (snd (process_tasks w sk config_files files)) cf = Some record
       \<and> snd (snd (process_tasks_pkg w sk config_files files)) cf = Some record"
proof -
  have "fst (snd (snd (for_config_files (loop_body w sk) config_files ([], files, False)))) cf
          = Some record"
    by (rule for_config_files_keeps [where step = "loop_body w sk" and files = files and p = cf, OF loop_body_marked assms])
  moreover have "fst (snd (snd (for_config_files (loop_body_pkg w sk) config_files ([], files, False)))) cf
          = Some record"
    by (rule for_config_files_keeps [where step = "loop_body_pkg w sk" and files = files and p = cf, OF loop_body_pkg_marked assms])
  ultimately show ?thesis
    using assms loop_body_executed [where files = files and cf = cf, OF assms]
    by (simp add: process_tasks_def process_tasks_pkg_def summary_files)
qed

theorem executed_is_terminal_witness:
  "executed ((example_task ''soon'' ''Mars/Olympus'' None)\<lparr>executed := True\<rparr>)
   \<and> loop_body (example_env (\<lambda>attempt. Status 200) True) (SecretList [''k'']) ''a.json''
        (map_of [(''a.json'', (example_task ''soon'' ''Mars/Olympus'' None)\<lparr>executed := True\<rparr>)])
     = (None, [Checking ''a.json'', SkipExecuted],
        map_of [(''a.json'', (example_task ''soon'' ''Mars/Olympus'' None)\<lparr>executed := True\<rparr>)],
        False)
   \<and> snd (snd (process_tasks_pkg (example_env (\<lambda>attempt. Status 200) True) (SecretList [''k''])
        [''a.json'', ''a.json'']
        (map_of [(''a.json'', (example_task ''soon'' ''Mars/Olympus'' None)\<lparr>executed := True\<rparr>)])))
       ''a.json''
     = Some ((example_task ''soon'' ''Mars/Olympus'' None)\<lparr>executed := True\<rparr>)"
proof -
  have stored: "map_of [(''a.json'', (example_task ''soon'' ''Mars/Olympus'' None)\<lparr>executed := True\<rparr>)]
      ''a.json'' = Some ((example_task ''soon'' ''Mars/Olympus'' None)\<lparr>executed := True\<rparr>)"
    by simp
  have flag: "executed ((example_task ''soon'' ''Mars/Olympus'' None)\<lparr>executed := True\<rparr>)"
    by simp
  show ?thesis
    using flag
      executed_is_terminal [where cf = "''a.json''"
        and files = "map_of [(''a.json'', (example_task ''soon'' ''Mars/Olympus'' None)\<lparr>executed := True\<rparr>)]"
        and config_files = "[''a.json'', ''a.json'']"
        and w = "example_env (\<lambda>attempt. Status 200) True" and sk = "SecretList [''k'']",
        OF stored flag]
    by blast
qed

text \<open>
  Claim C2 does not hold of \<^verbatim>\<open>main.py\<close>. The claim's delta is the time from the trigger
  time, read in the task's zone, to now. \<^verbatim>\<open>main.py\<close> gives both datetimes the same
  \<^verbatim>\<open>ZoneInfo\<close> object, and Python subtracts two such datetimes as wall-clock times, without
  their offsets. Across a change of the zone's offset the two differ. In
  \<^verbatim>\<open>Europe/Berlin\<close> on 31 March 2024 a task with trigger time 01:50 is 15 minutes late at
  03:05: \<^verbatim>\<open>main.py\<close> computes 75 minutes and prints that the task has expired. The package,
  whose pytz datetimes carry different tzinfo objects on the two sides of the change, is
  given the same input, computes 15 minutes and dispatches.
\<close>

theorem offset_change_misclassified:
  "real_of_int (clock offset_change_env ''a.json''
      - (1711849800000000 - offset_of_wall berlin 1711849800000000)) / 1000000 / 60 = 15
   \<and> loop_body offset_change_env (SecretList []) ''a.json''
        (map_of [(''a.json'', example_task ''2024-03-31 01:50:00'' ''Europe/Berlin'' None)])
     = (None,
        [Checking ''a.json'',
         ShowTimes \<lparr>wall = 1711849800000000, tzinfo = Some (ZoneInfo ''Europe/Berlin''),
                    utcoffset = 3600000000\<rparr>
                   \<lparr>wall = 1711854300000000, tzinfo = Some (ZoneInfo ''Europe/Berlin''),
                    utcoffset = 7200000000\<rparr>,
         ShowDelay 75, Expired],
        map_of [(''a.json'', example_task ''2024-03-31 01:50:00'' ''Europe/Berlin'' None)],
        False)
   \<and> loop_body_pkg offset_change_env (SecretList []) ''a.json''
        (map_of [(''a.json'', example_task ''2024-03-31 01:50:00'' ''Europe/Berlin'' None)])
     = (None,
        [Checking ''a.json'',
         ShowTimes \<lparr>wall = 1711849800000000, tzinfo = Some (Pytz ''Europe/Berlin'' 3600000000),
                    utcoffset = 3600000000\<rparr>
                   \<lparr>wall = 1711854300000000, tzinfo = Some (Pytz ''Europe/Berlin'' 7200000000),
                    utcoffset = 7200000000\<rparr>,
         ShowDelay 15, Preparing, Sending 1,
         Http (SendRequest ''POST'' (Some ''https://example.org/hook'')
                 \<lparr>device_keys = Some [''ipad''], other_items = [(''title'', JString ''hi'')]\<rparr> 20),
         SendOk 200, Saved],
        map_of [(''a.json'', (example_task ''2024-03-31 01:50:00'' ''Europe/Berlin'' None)
                   \<lparr>executed := True, executed_at := Some ''2024-03-31 03:05:00''\<rparr>)],
        True)"
  by (simp add: eval_defs offset_change_env_def berlin_def fun_eq_iff)

text \<open>
  The thresholds themselves are as claim C2 puts them, on the difference each runner
  computes. Take a record with \<^verbatim>\<open>executed\<close> false whose \<^verbatim>\<open>trigger_time\<close> parses and whose
  zone name is found. In \<^verbatim>\<open>main.py\<close> the difference is taken on the wall clock of the zone
  (\<open>delta\<close>), in the package between the two instants (\<open>delta_pkg\<close>). Below 0 the pass
  prints that it is not yet time and changes nothing; from 0 to 30, bounds included, it
  prepares the dispatch and makes attempt 1; above 30 it prints that the task has
  expired and changes nothing, so \<^verbatim>\<open>executed\<close> stays false.
\<close>

lemma window_thresholds:
  assumes "files cf = Some record" and "\<not> executed record"
    and "trigger_time record = Some s" and "s \<noteq> []"
    and "strptime w s TIME_FORMAT = Some t"
    and "tz = (case timezone record of None \<Rightarrow> ''Asia/Shanghai'' | Some name \<Rightarrow> name)"
    and "tzdb w tz = Found z"
    and "delta = real_of_int (clock w cf + offset_at z (clock w cf) - t) / 1000000 / 60"
    and "shown = [Checking cf,
                  ShowTimes \<lparr>wall = t, tzinfo = Some (ZoneInfo tz), utcoffset = offset_of_wall z t\<rparr>
                    (get_current_time w cf tz),
                  ShowDelay delta]"
    and "delta_pkg = real_of_int (clock w cf - (t - offset_of_wall z t)) / 1000000 / 60"
    and "shown_pkg = [Checking cf,
                  ShowTimes \<lparr>wall = t, tzinfo = Some (Pytz tz (offset_of_wall z t)),
                             utcoffset = offset_of_wall z t\<rparr>
                    (fst (get_current_time_pkg w cf tz)),
                  ShowDelay delta_pkg]"
  shows "(delta < 0 \<longrightarrow>
            loop_body w sk cf files = (None, shown @ [NotYetDue], files, False))
       \<and> (0 \<le> delta \<and> delta \<le> 30 \<longrightarrow>
            (\<exists>raised out files' changed.
               loop_body w sk cf files = (raised, shown @ [Preparing] @ out, files', changed)
               \<and> http_calls out \<noteq> [] \<and> hd (attempts out) = 1))
       \<and> (30 < delta \<longrightarrow>
            loop_body w sk cf files = (None, shown @ [Expired], files, False))
       \<and> (delta_pkg < 0 \<longrightarrow>
            loop_body_pkg w sk cf files = (None, shown_pkg @ [NotYetDue], files, False))
       \<and> (0 \<le> delta_pkg \<and> delta_pkg \<le> 30 \<longrightarrow>
            (\<exists>raised out files' changed.
               loop_body_pkg w sk cf files = (raised, shown_pkg @ [Preparing] @ out, files', changed)
               \<and> http_calls out \<noteq> [] \<and> hd (attempts out) = 1))
       \<and> (30 < delta_pkg \<longrightarrow>
            loop_body_pkg w sk cf files = (None, shown_pkg @ [Expired], files, False))"
proof -
  obtain data h where ld: "load record [] = (data, h)" by (cases "load record []")
  note found = assms(7) [unfolded assms(6)]
  note main = loop_body_timed [where files = files and cf = cf, OF assms(1-5) found ld, of sk]
  note pkg = loop_body_pkg_timed [where files = files and cf = cf, OF assms(1-5) found ld, of sk]
  have a: "delta < 0 \<longrightarrow> loop_body w sk cf files = (None, shown @ [NotYetDue], files, False)"
    unfolding main using assms(6,8,9) by (simp add: Let_def total_seconds_def)
  have b: "30 < delta \<longrightarrow> loop_body w sk cf files = (None, shown @ [Expired], files, False)"
    unfolding main using assms(6,8,9) by (simp add: Let_def total_seconds_def)
  have c: "0 \<le> delta \<and> delta \<le> 30 \<longrightarrow>
            (\<exists>raised out files' changed.
               loop_body w sk cf files = (raised, shown @ [Preparing] @ out, files', changed)
               \<and> http_calls out \<noteq> [] \<and> hd (attempts out) = 1)"
    unfolding main
    using assms(6,8,9) dispatch_attempted(1) [OF ld, of w sk cf "get_current_time w cf tz" files]
    by (auto simp: Let_def total_seconds_def)
  have a': "delta_pkg < 0 \<longrightarrow>
      loop_body_pkg w sk cf files = (None, shown_pkg @ [NotYetDue], files, False)"
    unfolding pkg using assms(6,10,11) by (simp add: Let_def total_seconds_def)
  have b': "30 < delta_pkg \<longrightarrow>
      loop_body_pkg w sk cf files = (None, shown_pkg @ [Expired], files, False)"
    unfolding pkg using assms(6,10,11) by (simp add: Let_def total_seconds_def)
  have c': "0 \<le> delta_pkg \<and> delta_pkg \<le> 30 \<longrightarrow>
            (\<exists>raised out files' changed.
               loop_body_pkg w sk cf files = (raised, shown_pkg @ [Preparing] @ out, files', changed)
               \<and> http_calls out \<noteq> [] \<and> hd (attempts out) = 1)"
    unfolding pkg
    using assms(6,10,11)
      dispatch_attempted(2) [OF ld, of w sk cf "fst (get_current_time_pkg w cf tz)" files]
    by (auto simp: Let_def total_seconds_def)
  show ?thesis using a b c a' b' c' by blast
qed

text \<open>The lemma at a task that is exactly 30 minutes late.\<close>

lemma window_thresholds_example:
  "\<not> executed (example_task ''1970-01-01 00:30:00'' ''UTC'' None)
   \<and> strptime (example_env (\<lambda>attempt. Status 200) True) ''1970-01-01 00:30:00'' TIME_FORMAT
       = Some 1800000000
   \<and> tzdb (example_env (\<lambda>attempt. Status 200) True) ''UTC'' = Found utc
   \<and> real_of_int (clock (example_env (\<lambda>attempt. Status 200) True) ''a.json''
         + offset_at utc (clock (example_env (\<lambda>attempt. Status 200) True) ''a.json'')
         - 1800000000) / 1000000 / 60 = 30
   \<and> (\<exists>raised out files' changed.
         loop_body (example_env (\<lambda>attempt. Status 200) True) (SecretList []) ''a.json''
           (map_of [(''a.json'', example_task ''1970-01-01 00:30:00'' ''UTC'' None)])
         = (raised,
            [Checking ''a.json'',
             ShowTimes \<lparr>wall = 1800000000, tzinfo = Some (ZoneInfo ''UTC''), utcoffset = 0\<rparr>
                       \<lparr>wall = 3600000000, tzinfo = Some (ZoneInfo ''UTC''), utcoffset = 0\<rparr>,
             ShowDelay 30, Preparing] @ out, files', changed)
         \<and> http_calls out \<noteq> [] \<and> hd (attempts out) = 1)"
proof -
  let ?w = "example_env (\<lambda>attempt. Status 200) True"
  let ?r = "example_task ''1970-01-01 00:30:00'' ''UTC'' None"
  have h1: "map_of [(''a.json'', ?r)] ''a.json'' = Some ?r" by simp
  have h2: "\<not> executed ?r" by (simp add: example_task_def)
  have h3: "trigger_time ?r = Some ''1970-01-01 00:30:00''" by (simp add: example_task_def)
  have h4: "''1970-01-01 00:30:00'' \<noteq> []" by simp
  have h5: "strptime ?w ''1970-01-01 00:30:00'' TIME_FORMAT = Some 1800000000"
    by (simp add: example_env_def)
  have h6: "''UTC'' = (case timezone ?r of None \<Rightarrow> ''Asia/Shanghai'' | Some name \<Rightarrow> name)"
    by (simp add: example_task_def)
  have h7: "tzdb ?w ''UTC'' = Found utc" by (simp add: example_env_def)
  have d: "real_of_int (clock ?w ''a.json'' + offset_at utc (clock ?w ''a.json'') - 1800000000)
      / 1000000 / 60 = 30"
    by (simp add: example_env_def utc_def)
  note t = window_thresholds [where files = "map_of [(''a.json'', ?r)]" and cf = "''a.json''"
      and sk = "SecretList []", OF h1 h2 h3 h4 h5 h6 h7 refl refl refl refl]
  have now: "get_current_time ?w ''a.json'' ''UTC''
      = \<lparr>wall = 3600000000, tzinfo = Some (ZoneInfo ''UTC''), utcoffset = 0\<rparr>"
    by (simp add: get_current_time_def example_env_def utc_def)
  have "\<exists>raised out files' changed.
         loop_body ?w (SecretList []) ''a.json'' (map_of [(''a.json'', ?r)])
         = (raised,
            [Checking ''a.json'',
             ShowTimes \<lparr>wall = 1800000000, tzinfo = Some (ZoneInfo ''UTC''), utcoffset = 0\<rparr>
                       \<lparr>wall = 3600000000, tzinfo = Some (ZoneInfo ''UTC''), utcoffset = 0\<rparr>,
             ShowDelay 30, Preparing] @ out, files', changed)
         \<and> http_calls out \<noteq> [] \<and> hd (attempts out) = 1"
    using conjunct1 [OF conjunct2 [OF t]] unfolding d now
    by (simp add: utc_def)
  then show ?thesis using h2 h5 h7 d by blast
qed

text \<open>
  Claim C3 does not hold of the code. The zone is looked up in \<^verbatim>\<open>process_tasks\<close> itself
  (\<^verbatim>\<open>ZoneInfo(tz_name)\<close>, \<^verbatim>\<open>pytz.timezone(tz_name)\<close>) before \<^verbatim>\<open>get_current_time\<close>, whose
  fallback is therefore never reached, and the exception for an unknown name is a
  \<^verbatim>\<open>KeyError\<close>, which \<^verbatim>\<open>except ValueError\<close> does not catch. With an unknown zone in the
  first of two config files, both runners end with that exception after the first
  line of output; the second file is never looked at.
\<close>

theorem unknown_zone_aborts:
  "process_tasks (example_env (\<lambda>attempt. Status 200) True) (SecretList [])
     [''a.json'', ''b.json'']
     (map_of [(''a.json'', example_task ''1970-01-01 00:50:00'' ''Mars/Olympus'' None),
              (''b.json'', example_task ''1970-01-01 00:50:00'' ''UTC'' None)])
   = (Some KeyError, [Checking ''a.json''],
      map_of [(''a.json'', example_task ''1970-01-01 00:50:00'' ''Mars/Olympus'' None),
              (''b.json'', example_task ''1970-01-01 00:50:00'' ''UTC'' None)])
   \<and> process_tasks_pkg (example_env (\<lambda>attempt. Status 200) True) (SecretList [])
     [''a.json'', ''b.json'']
     (map_of [(''a.json'', example_task ''1970-01-01 00:50:00'' ''Mars/Olympus'' None),
              (''b.json'', example_task ''1970-01-01 00:50:00'' ''UTC'' None)])
   = (Some KeyError, [Checking ''a.json''],
      map_of [(''a.json'', example_task ''1970-01-01 00:50:00'' ''Mars/Olympus'' None),
              (''b.json'', example_task ''1970-01-01 00:50:00'' ''UTC'' None)])"
  by (simp add: eval_defs)

section \<open>The delivery engine\<close>

text \<open>
  Claim C4, as stated, fails in \<^verbatim>\<open>main.py\<close> for a verb other than GET and POST: a task
  whose method is PUT is sent with \<^verbatim>\<open>requests.post\<close>.
\<close>

theorem any_other_verb_counterexample:
  "method' (example_task ''1970-01-01 00:50:00'' ''UTC'' (Some ''PUT'')) = Some ''PUT''
   \<and> map verb (http_calls (fst (snd (loop_body (example_env (\<lambda>attempt. Status 200) True)
         (SecretList []) ''a.json''
         (map_of [(''a.json'', example_task ''1970-01-01 00:50:00'' ''UTC'' (Some ''PUT''))])))))
     = [''POST'']"
  by (simp add: eval_defs observe verb_def)

text \<open>
  Claim C4, amended. Every attempt of a dispatch makes one HTTP call, with a timeout of
  20 seconds, and all calls of a dispatch are the same. In \<^verbatim>\<open>main.py\<close> the call is a GET
  with the payload as query parameters when the configured method, in upper case, is
  GET, and otherwise a POST with the payload as the JSON body, whatever the verb (POST
  when none is configured). The package hands the method in upper case, the URL, the
  payload and the timeout 20 to \<^verbatim>\<open>task_io.send_request\<close>.
\<close>

theorem attempt_request:
  "http_calls (fst (snd (dispatch w sk cf data h now files)))
     = replicate (length (attempts (fst (snd (dispatch w sk cf data h now files)))))
         (if upper (case method' data of None \<Rightarrow> ''POST'' | Some m \<Rightarrow> m) = ''GET''
          then Get (webhook_url data) (outgoing (set_order w) sk data h) 20
          else Post (webhook_url data) (outgoing (set_order w) sk data h) 20)
   \<and> http_calls (fst (snd (dispatch_pkg w sk cf data h now files)))
     = replicate (length (attempts (fst (snd (dispatch_pkg w sk cf data h now files)))))
         (SendRequest (upper (case method' data of None \<Rightarrow> ''POST'' | Some m \<Rightarrow> m))
            (webhook_url data) (outgoing (set_order w) sk data h) 20)"
proof -
  obtain rest where main:
    "fst (snd (dispatch w sk cf data h now files))
      = [Preparing] @ snd (snd (build_payload (set_order w) sk data h))
        @ snd (send_with_retry (transport w cf)
                (make_request (upper (case method' data of None \<Rightarrow> ''POST'' | Some m \<Rightarrow> m))
                   (webhook_url data) (outgoing (set_order w) sk data h)))
        @ rest"
    and quiet: "http_calls rest = []" "attempts rest = []"
    using dispatch_out by blast
  obtain rest' where pkg:
    "fst (snd (dispatch_pkg w sk cf data h now files))
      = [Preparing] @ snd (snd (build_payload (set_order w) sk data h))
        @ snd (send_with_retry_pkg (transport w cf)
                (make_request_pkg (upper (case method' data of None \<Rightarrow> ''POST'' | Some m \<Rightarrow> m))
                   (webhook_url data) (outgoing (set_order w) sk data h)))
        @ rest'"
    and quiet': "http_calls rest' = []" "attempts rest' = []"
    using dispatch_pkg_out by blast
  show ?thesis
    unfolding main pkg
    using quiet quiet'
    by (simp add: observe build_payload_quiet send_with_retry_def send_with_retry_pkg_def
          send_attempts_calls send_attempts_pkg_calls make_request_def make_request_pkg_def)
qed

text \<open>
  The method is compared in upper case: a task configured with \<^verbatim>\<open>get\<close> goes out as a GET
  in \<^verbatim>\<open>main.py\<close>.
\<close>

lemma lower_case_get:
  "upper ''get'' = ''GET''
   \<and> http_calls (fst (snd (loop_body (example_env (\<lambda>attempt. Status 200) True)
         (SecretList []) ''a.json''
         (map_of [(''a.json'', example_task ''1970-01-01 00:50:00'' ''UTC'' (Some ''get''))]))))
     = [Get (Some ''https://example.org/hook'')
          \<lparr>device_keys = Some [''ipad''], other_items = [(''title'', JString ''hi'')]\<rparr> 20]"
  by (simp add: eval_defs observe)

text \<open>
  Claim C5. Attempts are numbered from 1 and there are at most 3. The delivery succeeds
  exactly when one of the three responses has a status in [200, 300); it stops at the
  first such response. A response with another status and a transport fault both count
  as a failed attempt; after a failed attempt that is not the third the runner sleeps 2
  seconds. So 200 at once gives success after 1 attempt and no sleep; 500 three times
  gives failure after 3 attempts and 2 sleeps; 500, 500, 200 gives success after 3
  attempts; three faults give failure after 3 attempts.
\<close>

theorem delivery_attempts:
  "fst (send_with_retry http req)
     = (is_2xx (http 1 req) \<or> is_2xx (http 2 req) \<or> is_2xx (http 3 req))
   \<and> attempts (snd (send_with_retry http req)) = [1..<Suc (attempts_made http req)]
   \<and> http_calls (snd (send_with_retry http req)) = replicate (attempts_made http req) req
   \<and> sleeps (snd (send_with_retry http req)) = replicate (attempts_made http req - 1) 2
   \<and> fst (send_with_retry_pkg http req)
     = (is_2xx (http 1 req) \<or> is_2xx (http 2 req) \<or> is_2xx (http 3 req))
   \<and> attempts (snd (send_with_retry_pkg http req)) = [1..<Suc (attempts_made http req)]
   \<and> http_calls (snd (send_with_retry_pkg http req)) = replicate (attempts_made http req) req
   \<and> sleeps (snd (send_with_retry_pkg http req)) = replicate (attempts_made http req - 1) 2
   \<and> send_with_retry (\<lambda>attempt r. Status 200) req = (True, [Sending 1, Http req, SendOk 200])
   \<and> send_with_retry (\<lambda>attempt r. Status 500) req
       = (False, [Sending 1, Http req, ServerReturned 500, WaitRetry 2, Sleep 2,
                  Sending 2, Http req, ServerReturned 500, WaitRetry 2, Sleep 2,
                  Sending 3, Http req, ServerReturned 500])
   \<and> send_with_retry (\<lambda>attempt r. if attempt < 3 then Status 500 else Status 200) req
       = (True, [Sending 1, Http req, ServerReturned 500, WaitRetry 2, Sleep 2,
                 Sending 2, Http req, ServerReturned 500, WaitRetry 2, Sleep 2,
                 Sending 3, Http req, SendOk 200])
   \<and> send_with_retry (\<lambda>attempt r. Fault) req
       = (False, [Sending 1, Http req, NetworkError, WaitRetry 2, Sleep 2,
                  Sending 2, Http req, NetworkError, WaitRetry 2, Sleep 2,
                  Sending 3, Http req, NetworkError])"
proof -
  have general:
    "fst (send_with_retry http req)
       = (is_2xx (http 1 req) \<or> is_2xx (http 2 req) \<or> is_2xx (http 3 req))
     \<and> attempts (snd (send_with_retry http req)) = [1..<Suc (attempts_made http req)]
     \<and> http_calls (snd (send_with_retry http req)) = replicate (attempts_made http req) req
     \<and> sleeps (snd (send_with_retry http req)) = replicate (attempts_made http req - 1) 2"
    unfolding send_with_retry_def attempt_range attempts_made_def
    by (auto simp: is_2xx_def observe MAX_RETRIES_def RETRY_DELAY_def upt_rec eval_nat_numeral
          split: response.splits prod.splits)
  have general_pkg:
    "fst (send_with_retry_pkg http req)
       = (is_2xx (http 1 req) \<or> is_2xx (http 2 req) \<or> is_2xx (http 3 req))
     \<and> attempts (snd (send_with_retry_pkg http req)) = [1..<Suc (attempts_made http req)]
     \<and> http_calls (snd (send_with_retry_pkg http req)) = replicate (attempts_made http req) req
     \<and> sleeps (snd (send_with_retry_pkg http req)) = replicate (attempts_made http req - 1) 2"
    unfolding send_with_retry_pkg_def attempt_range attempts_made_def
    by (auto simp: is_2xx_def observe MAX_RETRIES_def RETRY_DELAY_def upt_rec eval_nat_numeral
          split: response.splits prod.splits)
  have scenarios:
    "send_with_retry (\<lambda>attempt r. Status 200) req = (True, [Sending 1, Http req, SendOk 200])"
    "send_with_retry (\<lambda>attempt r. Status 500) req
       = (False, [Sending 1, Http req, ServerReturned 500, WaitRetry 2, Sleep 2,
                  Sending 2, Http req, ServerReturned 500, WaitRetry 2, Sleep 2,
                  Sending 3, Http req, ServerReturned 500])"
    "send_with_retry (\<lambda>attempt r. if attempt < 3 then Status 500 else Status 200) req
       = (True, [Sending 1, Http req, ServerReturned 500, WaitRetry 2, Sleep 2,
                 Sending 2, Http req, ServerReturned 500, WaitRetry 2, Sleep 2,
                 Sending 3, Http req, SendOk 200])"
    "send_with_retry (\<lambda>attempt r. Fault) req
       = (False, [Sending 1, Http req, NetworkError, WaitRetry 2, Sleep 2,
                  Sending 2, Http req, NetworkError, WaitRetry 2, Sleep 2,
                  Sending 3, Http req, NetworkError])"
    unfolding send_with_retry_def attempt_range
    by (simp_all add: MAX_RETRIES_def RETRY_DELAY_def)
  show ?thesis using general general_pkg scenarios by simp
qed

section \<open>Persistence\<close>

text \<open>
  Claim C6 does not hold of \<^verbatim>\<open>main.py\<close>: the write of the config file (lines 170 and
  171) is under no \<^verbatim>\<open>try\<close>. When the first of two eligible config files cannot be
  written after a delivery with status 200, the run ends with \<^verbatim>\<open>OSError\<close>; the second
  file is never looked at and no summary is printed.
\<close>

theorem write_failure_aborts:
  "process_tasks (example_env (\<lambda>attempt. Status 200) False) (SecretList [])
     [''a.json'', ''b.json'']
     (map_of [(''a.json'', example_task ''1970-01-01 00:50:00'' ''UTC'' None),
              (''b.json'', example_task ''1970-01-01 00:50:00'' ''UTC'' None)])
   = (Some OSError,
      [Checking ''a.json'',
       ShowTimes \<lparr>wall = 3000000000, tzinfo = Some (ZoneInfo ''UTC''), utcoffset = 0\<rparr>
                 \<lparr>wall = 3600000000, tzinfo = Some (ZoneInfo ''UTC''), utcoffset = 0\<rparr>,
       ShowDelay 10, Preparing, Sending 1,
       Http (Post (Some ''https://example.org/hook'')
               \<lparr>device_keys = Some [''ipad''], other_items = [(''title'', JString ''hi'')]\<rparr> 20),
       SendOk 200],
      map_of [(''a.json'', example_task ''1970-01-01 00:50:00'' ''UTC'' None),
              (''b.json'', example_task ''1970-01-01 00:50:00'' ''UTC'' None)])"
  by (simp add: eval_defs)

text \<open>
  The package does what the claim says on the same input: the failure is printed, the
  delivery stands, and the second config file is processed.
\<close>

lemma write_failure_pkg_continues:
  "process_tasks_pkg (example_env (\<lambda>attempt. Status 200) False) (SecretList [])
     [''a.json'', ''b.json'']
     (map_of [(''a.json'', example_task ''1970-01-01 00:50:00'' ''UTC'' None),
              (''b.json'', example_task ''1970-01-01 01:05:00'' ''UTC'' None)])
   = (None,
      [Checking ''a.json'',
       ShowTimes \<lparr>wall = 3000000000, tzinfo = Some (Pytz ''UTC'' 0), utcoffset = 0\<rparr>
                 \<lparr>wall = 3600000000, tzinfo = Some (Pytz ''UTC'' 0), utcoffset = 0\<rparr>,
       ShowDelay 10, Preparing, Sending 1,
       Http (SendRequest ''POST'' (Some ''https://example.org/hook'')
               \<lparr>device_keys = Some [''ipad''], other_items = [(''title'', JString ''hi'')]\<rparr> 20),
       SendOk 200, SaveFailed,
       Checking ''b.json'',
       ShowTimes \<lparr>wall = 3900000000, tzinfo = Some (Pytz ''UTC'' 0), utcoffset = 0\<rparr>
                 \<lparr>wall = 3600000000, tzinfo = Some (Pytz ''UTC'' 0), utcoffset = 0\<rparr>,
       ShowDelay (-5), NotYetDue, SummaryUnchanged],
      map_of [(''a.json'', example_task ''1970-01-01 00:50:00'' ''UTC'' None),
              (''b.json'', example_task ''1970-01-01 01:05:00'' ''UTC'' None)])"
  by (simp add: eval_defs)

section \<open>The credential resolver\<close>

text \<open>
  Claim C7. The keys are resolved in a copy. Once a record is loaded and its payload
  built, every dict object that existed before is unchanged, so that the loaded record
  still dumps to the record of the file, body and \<^verbatim>\<open>device_keys\<close> included; the payload
  is a new object, not the body, and it alone holds the resolved keys beside the other
  entries of the body. In the config files, a pass of either runner leaves the body of
  every record as it was, whether the delivery succeeds or not.
\<close>

theorem payload_is_a_copy:
  assumes "load record h0 = (data, h)"
    and "build_payload order sk data h = (payload, h', out)"
  shows "take (length h) h' = h
       \<and> dump data h' = record
       \<and> length h \<le> payload \<and> payload < length h' \<and> body data \<noteq> Some payload
       \<and> h' ! payload
           = \<lparr>device_keys = Some (fst (inject_keys order sk (declared_keys (body record)))),
              other_items = other_entries (body record)\<rparr>
       \<and> (\<forall>p. map_option body (fst (snd (snd (loop_body w secret cf files))) p)
                = map_option body (files p))
       \<and> (\<forall>p. map_option body (fst (snd (snd (loop_body_pkg w secret cf files))) p)
                = map_option body (files p))"
proof -
  have built: "payload = Suc (length h0)"
    "h' = h0 @ [case body record of None \<Rightarrow> \<lparr>device_keys = None, other_items = []\<rparr> | Some d \<Rightarrow> d,
                \<lparr>device_keys = Some (fst (inject_keys order sk (declared_keys (body record)))),
                 other_items = other_entries (body record)\<rparr>]"
    using assms(2) unfolding build_payload_loaded [OF assms(1)] by simp_all
  have loaded: "data = with_body record (map_option (\<lambda>d. length h0) (body record))"
    "h = h0 @ (case body record of None \<Rightarrow> [] | Some d \<Rightarrow> [d])"
    using assms(1) unfolding load_eq by simp_all
  have heap: "take (length h) h' = h" "length h \<le> payload" "payload < length h'"
    "body data \<noteq> Some payload"
    unfolding built loaded by (auto simp: with_body_def split: option.splits)
  have written: "dump data h' = record"
    unfolding built loaded by (auto simp: dump_def with_body_def nth_append split: option.splits)
  have copy: "h' ! payload
           = \<lparr>device_keys = Some (fst (inject_keys order sk (declared_keys (body record)))),
              other_items = other_entries (body record)\<rparr>"
    unfolding built by (simp add: nth_append)
  show ?thesis
    using heap written copy
      marked_body [OF loop_body_marked] marked_body [OF loop_body_pkg_marked]
    by simp
qed

theorem payload_is_a_copy_witness:
  "load (example_task ''1970-01-01 00:50:00'' ''UTC'' None) []
     = (with_body (example_task ''1970-01-01 00:50:00'' ''UTC'' None) (Some 0),
        [\<lparr>device_keys = Some [''ipad''], other_items = [(''title'', JString ''hi'')]\<rparr>])
   \<and> build_payload length (SecretDict (Alist [(''ipad'', ''KEY1'')]))
        (with_body (example_task ''1970-01-01 00:50:00'' ''UTC'' None) (Some 0))
        [\<lparr>device_keys = Some [''ipad''], other_items = [(''title'', JString ''hi'')]\<rparr>]
     = (1, [\<lparr>device_keys = Some [''ipad''], other_items = [(''title'', JString ''hi'')]\<rparr>,
            \<lparr>device_keys = Some [''KEY1''], other_items = [(''title'', JString ''hi'')]\<rparr>],
        [ReplaceAlias ''ipad''])
   \<and> dump (with_body (example_task ''1970-01-01 00:50:00'' ''UTC'' None) (Some 0))
        [\<lparr>device_keys = Some [''ipad''], other_items = [(''title'', JString ''hi'')]\<rparr>,
         \<lparr>device_keys = Some [''KEY1''], other_items = [(''title'', JString ''hi'')]\<rparr>]
     = example_task ''1970-01-01 00:50:00'' ''UTC'' None"
proof -
  have ld: "load (example_task ''1970-01-01 00:50:00'' ''UTC'' None) []
     = (with_body (example_task ''1970-01-01 00:50:00'' ''UTC'' None) (Some 0),
        [\<lparr>device_keys = Some [''ipad''], other_items = [(''title'', JString ''hi'')]\<rparr>])"
    by (simp add: load_def alloc_def example_task_def)
  have bp: "build_payload length (SecretDict (Alist [(''ipad'', ''KEY1'')]))
        (with_body (example_task ''1970-01-01 00:50:00'' ''UTC'' None) (Some 0))
        [\<lparr>device_keys = Some [''ipad''], other_items = [(''title'', JString ''hi'')]\<rparr>]
     = (1, [\<lparr>device_keys = Some [''ipad''], other_items = [(''title'', JString ''hi'')]\<rparr>,
            \<lparr>device_keys = Some [''KEY1''], other_items = [(''title'', JString ''hi'')]\<rparr>],
        [ReplaceAlias ''ipad''])"
    by (simp add: build_payload_def with_body_def alloc_def deepcopy_def setitem_device_keys_def
          getitem_device_keys_def inject_keys_def lookup.rep_eq impl_of_Alist)
  have "dump (with_body (example_task ''1970-01-01 00:50:00'' ''UTC'' None) (Some 0))
        [\<lparr>device_keys = Some [''ipad''], other_items = [(''title'', JString ''hi'')]\<rparr>,
         \<lparr>device_keys = Some [''KEY1''], other_items = [(''title'', JString ''hi'')]\<rparr>]
     = example_task ''1970-01-01 00:50:00'' ''UTC'' None"
    by (rule conjunct1 [OF conjunct2 [OF payload_is_a_copy [OF ld bp]]])
  with ld bp show ?thesis by (intro conjI)
qed

text \<open>
  Claim C8. With a list of credentials that is not empty, the resolved key list has,
  as a set, exactly the declared keys and the credentials, and holds no value twice,
  whatever order the set is iterated in; with an empty list of credentials the declared
  keys are returned as they are.
\<close>

theorem list_form_union:
  "(ks \<noteq> [] \<longrightarrow>
      set (fst (inject_keys order (SecretList ks) declared)) = set declared \<union> set ks
      \<and> distinct (fst (inject_keys order (SecretList ks) declared)))
   \<and> fst (inject_keys order (SecretList []) declared) = declared"
  by (simp add: inject_list set_list_set distinct_list_set)

theorem list_form_union_witness:
  "[''k2'', ''k1''] \<noteq> []
   \<and> set (fst (inject_keys length (SecretList [''k2'', ''k1'']) [''k1'', ''k3'', ''k1'']))
       = {''k1'', ''k2'', ''k3''}
   \<and> distinct (fst (inject_keys length (SecretList [''k2'', ''k1'']) [''k1'', ''k3'', ''k1'']))
   \<and> fst (inject_keys length (SecretList []) [''k1'', ''k3'', ''k1'']) = [''k1'', ''k3'', ''k1'']"
  using list_form_union [of "[''k2'', ''k1'']" length "[''k1'', ''k3'', ''k1'']"]
  by auto

text \<open>
  Claim C9. With a dict of credentials, a declared list that is not empty is resolved
  alias by alias, in order: an alias that is a key of the dict becomes the value the
  dict gives it, any other alias stays as it is. An empty declared list is resolved to
  the values of the dict (in the dict's order), which are all the values the dict maps
  to.
\<close>

theorem map_form_substitution:
  "fst (inject_keys order (SecretDict m) declared) =
     (if declared = [] then map snd (DAList.impl_of m)
      else map (\<lambda>alias. case DAList.lookup m alias of Some key \<Rightarrow> key | None \<Rightarrow> alias) declared)
   \<and> set (map snd (DAList.impl_of m)) = ran (DAList.lookup m)"
  by (simp add: inject_dict substitute_def fun_eq_iff lookup.rep_eq ran_distinct cong: map_cong)

text \<open>
  Claim C10, as stated, fails for a dict of credentials in which a value is itself an
  alias: with \<open>a \<mapsto> b, b \<mapsto> c\<close> the declared list \<open>[a]\<close> resolves to \<open>[b]\<close>, and \<open>[b]\<close>
  resolves to \<open>[c]\<close>.
\<close>

theorem resolution_twice_counterexample:
  "fst (inject_keys length (SecretDict (Alist [(''a'', ''b''), (''b'', ''c'')]))
          (fst (inject_keys length (SecretDict (Alist [(''a'', ''b''), (''b'', ''c'')])) [''a''])))
   \<noteq> fst (inject_keys length (SecretDict (Alist [(''a'', ''b''), (''b'', ''c'')])) [''a''])"
  by (simp add: inject_dict substitute_def lookup.rep_eq impl_of_Alist)

text \<open>
  Claim C10, amended. Resolving the output of a first resolution again, with the same
  credentials, yields the same set of keys when the credentials are a list. When they
  are a dict it yields the same sequence exactly when no key of the first result is an
  alias that the dict maps to another value (so whenever no credential value is itself
  an alias).
\<close>

theorem resolution_twice:
  "set (fst (inject_keys order (SecretList ks) (fst (inject_keys order (SecretList ks) declared))))
     = set (fst (inject_keys order (SecretList ks) declared))
   \<and> (fst (inject_keys order (SecretDict m) (fst (inject_keys order (SecretDict m) declared)))
          = fst (inject_keys order (SecretDict m) declared)
        \<longleftrightarrow> (\<forall>item \<in> set (fst (inject_keys order (SecretDict m) declared)).
               case DAList.lookup m item of Some key \<Rightarrow> key = item | None \<Rightarrow> True))"
proof -
  let ?once = "fst (inject_keys order (SecretDict m) declared)"
  have fixed: "(\<forall>item \<in> set ?once. case DAList.lookup m item of Some key \<Rightarrow> key = item | None \<Rightarrow> True)
      \<longleftrightarrow> map (substitute m) ?once = ?once"
    unfolding substitute_fixed by (auto simp: substitute_def split: option.splits)
  have twice: "fst (inject_keys order (SecretDict m) ?once) = map (substitute m) ?once"
    by (cases "?once = []") (auto simp: inject_dict split: if_splits)
  have lists: "set (fst (inject_keys order (SecretList ks) (fst (inject_keys order (SecretList ks) declared))))
     = set (fst (inject_keys order (SecretList ks) declared))"
    by (auto simp: inject_list set_list_set)
  show ?thesis
    using fixed twice lists by simp
qed

theorem resolution_twice_witness:
  "set (fst (inject_keys length (SecretList [''k''])
              (fst (inject_keys length (SecretList [''k'']) [''a'', ''x'']))))
     = set (fst (inject_keys length (SecretList [''k'']) [''a'', ''x'']))
   \<and> fst (inject_keys length (SecretDict (Alist [(''a'', ''b'')]))
            (fst (inject_keys length (SecretDict (Alist [(''a'', ''b'')])) [''a'', ''x''])))
       = fst (inject_keys length (SecretDict (Alist [(''a'', ''b'')])) [''a'', ''x''])
   \<and> fst (inject_keys length (SecretDict (Alist [(''a'', ''b'')])) [''a'', ''x'']) = [''b'', ''x'']"
  using resolution_twice [of length "[''k'']" "[''a'', ''x'']" "Alist [(''a'', ''b'')]"]
  by (simp add: inject_dict substitute_def lookup.rep_eq impl_of_Alist)

end
